theory Spec2Isabelle
  imports Complex_Main
begin

section \<open>The SciPy tutorial notebook: data model\<close>

text \<open>
  The notebook \<^verbatim>\<open>2_ScipyLibrary\<close> is a sequence of code cells run in one Python
  namespace. Its own code is made of the right-hand-side functions \<^verbatim>\<open>dx\<close> and
  \<^verbatim>\<open>dy\<close>, the two one-line functions \<^verbatim>\<open>f\<close>, and the cells that bind variables
  and call library routines.

  Python floats are read as real numbers throughout: rounding, overflow, infinities and
  NaN are outside this development.
\<close>

datatype error = IndexError | ZeroDivisionError | ValueError | LibraryError string

text \<open>Sequencing of computations that may raise: the first error raised is the result.\<close>

definition bind_err :: "error + 'a \<Rightarrow> ('a \<Rightarrow> error + 'b) \<Rightarrow> error + 'b" where
  "bind_err r k = (case r of Inl e \<Rightarrow> Inl e | Inr v \<Rightarrow> k v)"

text \<open>\<^verbatim>\<open>xs[i]\<close> for a constant index \<open>i \<ge> 0\<close>: out of range raises IndexError.\<close>

definition index :: "'a list \<Rightarrow> nat \<Rightarrow> error + 'a" where
  "index xs i = (if i < length xs then Inr (xs ! i) else Inl IndexError)"

text \<open>
  \<^verbatim>\<open>a / b\<close> on floats. Python's float division raises ZeroDivisionError on a zero
  divisor; every division of \<^verbatim>\<open>dx\<close> is given this error branch.
\<close>

definition divide_py :: "real \<Rightarrow> real \<Rightarrow> error + real" where
  "divide_py a b = (if b = 0 then Inl ZeroDivisionError else Inr (a / b))"

text \<open>
  A numeric array of one or two dimensions; a two-dimensional array is the list of its
  rows. The names \<^verbatim>\<open>x\<close>, \<^verbatim>\<open>y1\<close> and \<^verbatim>\<open>y2\<close> are bound to arrays of both kinds by
  different cells.
\<close>

datatype ndarray = Arr1 "real list" | Arr2 "real list list"

text \<open>
  \<^verbatim>\<open>a[:, k]\<close>: column \<open>k\<close> of a two-dimensional array. A one-dimensional array has too
  many indices, and a column index beyond the row length is out of bounds: IndexError.
  (An array with no rows is read as having the column asked for.)
\<close>

definition col :: "nat \<Rightarrow> ndarray \<Rightarrow> error + real list" where
  "col k a = (case a of
       Arr1 v \<Rightarrow> Inl IndexError
     | Arr2 rows \<Rightarrow>
         if list_all (\<lambda>r. k < length r) rows then Inr (map (\<lambda>r. r ! k) rows)
         else Inl IndexError)"

text \<open>
  The variables of the notebook's namespace that the cells below read or bind, each under
  the name the source gives it (with \<open>_var\<close> appended). A state stands for the namespace
  once these names are bound.
\<close>

record nb_state =
  g_var :: real
  L_var :: real
  m_var :: real
  x0_var :: "real list"
  t_var :: "real list"
  x_var :: ndarray
  y0_var :: "real list"
  w0_var :: real
  y1_var :: ndarray
  y2_var :: ndarray
  y3_var :: ndarray
  y4_var :: ndarray
  N_var :: nat
  dt_var :: real
  F_var :: "complex list"
  w_var :: "real list"
  indices_var :: "nat list"
  w_pos_var :: "real list"
  F_pos_var :: "complex list"

section \<open>Double pendulum\<close>

text \<open>
  The cell that defines \<^verbatim>\<open>dx\<close> first binds the three module-level parameters:
  \<^verbatim>\<open>g = 9.82\<close>, \<^verbatim>\<open>L = 0.5\<close>, \<^verbatim>\<open>m = 0.1\<close>.
\<close>

definition cell_13 :: "nb_state \<Rightarrow> nb_state" where
  "cell_13 s = s\<lparr>g_var := 9.82, L_var := 0.5, m_var := 0.1\<rparr>"

text \<open>
  \<^verbatim>\<open>def dx(x, t)\<close>. The body reads \<^verbatim>\<open>g\<close>, \<^verbatim>\<open>L\<close> and \<^verbatim>\<open>m\<close> from the namespace at
  the time of the call, so the state is an argument. Evaluation order follows the source:
  the four index reads, then \<^verbatim>\<open>dx1\<close> (first \<^verbatim>\<open>6.0/(m*L**2)\<close>, then the product, then
  the division by \<^verbatim>\<open>16 - 9 * cos(x1-x2)**2\<close>), \<^verbatim>\<open>dx2\<close> likewise, then \<^verbatim>\<open>dx3\<close> and
  \<^verbatim>\<open>dx4\<close> with their \<^verbatim>\<open>g/L\<close>. The argument \<open>t\<close> is not read.
\<close>

definition dx :: "nb_state \<Rightarrow> real list \<Rightarrow> real \<Rightarrow> error + real list" where
  "dx s x t =
     bind_err (index x 0) (\<lambda>x1.
     bind_err (index x 1) (\<lambda>x2.
     bind_err (index x 2) (\<lambda>x3.
     bind_err (index x 3) (\<lambda>x4.
     bind_err (divide_py 6 (m_var s * L_var s ^ 2)) (\<lambda>c1.
     bind_err (divide_py (c1 * (2 * x3 - 3 * cos (x1 - x2) * x4))
                         (16 - 9 * cos (x1 - x2) ^ 2)) (\<lambda>dx1.
     bind_err (divide_py 6 (m_var s * L_var s ^ 2)) (\<lambda>c2.
     bind_err (divide_py (c2 * (8 * x4 - 3 * cos (x1 - x2) * x3))
                         (16 - 9 * cos (x1 - x2) ^ 2)) (\<lambda>dx2.
     bind_err (divide_py (g_var s) (L_var s)) (\<lambda>gl3.
     bind_err (divide_py (g_var s) (L_var s)) (\<lambda>gl4.
       Inr [dx1, dx2,
            - 0.5 * m_var s * L_var s ^ 2 * (dx1 * dx2 * sin (x1 - x2) + 3 * gl3 * sin x1),
            - 0.5 * m_var s * L_var s ^ 2 * (- dx1 * dx2 * sin (x1 - x2) + gl4 * sin x2)]
     ))))))))))"

text \<open>
  The equations of motion as the specification writes them, with \<open>m = 0.1\<close>,
  \<open>L = 0.5\<close>, \<open>g = 9.82\<close>.
\<close>

definition pendulum_equations :: "real \<Rightarrow> real \<Rightarrow> real \<Rightarrow> real \<Rightarrow> real list" where
  "pendulum_equations x1 x2 x3 x4 =
     (let m = 0.1; L = 0.5; g = 9.82;
          dx1 = 6 / (m * L ^ 2) * (2 * x3 - 3 * cos (x1 - x2) * x4) / (16 - 9 * cos (x1 - x2) ^ 2);
          dx2 = 6 / (m * L ^ 2) * (8 * x4 - 3 * cos (x1 - x2) * x3) / (16 - 9 * cos (x1 - x2) ^ 2);
          dx3 = - 0.5 * m * L ^ 2 * (dx1 * dx2 * sin (x1 - x2) + 3 * (g / L) * sin x1);
          dx4 = - 0.5 * m * L ^ 2 * (- dx1 * dx2 * sin (x1 - x2) + (g / L) * sin x2)
      in [dx1, dx2, dx3, dx4])"

section \<open>Damped harmonic oscillator\<close>

text \<open>
  \<^verbatim>\<open>def dy(y, t, zeta, w0)\<close>: reads \<^verbatim>\<open>y[0]\<close> and \<^verbatim>\<open>y[1]\<close>, no global.
\<close>

definition dy :: "real list \<Rightarrow> real \<Rightarrow> real \<Rightarrow> real \<Rightarrow> error + real list" where
  "dy y t zeta w0 =
     bind_err (index y 0) (\<lambda>x.
     bind_err (index y 1) (\<lambda>p.
       Inr [p, - 2 * zeta * w0 * p - w0 ^ 2 * x]))"

section \<open>The objective functions\<close>



section \<open>Cells as statements on the namespace\<close>


text \<open>
  Running a statement gives the error it raised, if any, and the namespace it leaves
  behind. An assignment \<^verbatim>\<open>v = e\<close> evaluates \<open>e\<close> and then binds \<open>v\<close>; when
  \<open>e\<close> raises, nothing is bound. The statements of a cell run in order and stop at the
  first error; there is no \<^verbatim>\<open>try\<close> in the notebook.
\<close>

type_synonym outcome = "error option \<times> nb_state"

definition assign ::
  "(nb_state \<Rightarrow> error + 'a) \<Rightarrow> ('a \<Rightarrow> nb_state \<Rightarrow> nb_state) \<Rightarrow> nb_state \<Rightarrow> outcome" where
  "assign rhs store s = (case rhs s of Inl e \<Rightarrow> (Some e, s) | Inr v \<Rightarrow> (None, store v s))"

definition then_stmt ::
  "(nb_state \<Rightarrow> outcome) \<Rightarrow> (nb_state \<Rightarrow> outcome) \<Rightarrow> nb_state \<Rightarrow> outcome" where
  "then_stmt a b s = (case a s of (Some e, s') \<Rightarrow> (Some e, s') | (None, s') \<Rightarrow> b s')"













text \<open>
  The positive-frequency cell: \<^verbatim>\<open>indices = where(w > 0)\<close>, \<^verbatim>\<open>w_pos = w[indices]\<close>,
  \<^verbatim>\<open>F_pos = F[indices]\<close>. \<^verbatim>\<open>where\<close> lists, in increasing order, the positions at which
  the condition holds; indexing an array by a list of positions reads each of them and
  raises IndexError when one is out of bounds.
\<close>

definition where_positive :: "real list \<Rightarrow> nat list" where
  "where_positive v = filter (\<lambda>i. 0 < v ! i) [0..<length v]"

definition take_indices :: "'a list \<Rightarrow> nat list \<Rightarrow> error + 'a list" where
  "take_indices xs ns =
     (if list_all (\<lambda>i. i < length xs) ns then Inr (map (\<lambda>i. xs ! i) ns) else Inl IndexError)"

definition cell33_indices :: "nb_state \<Rightarrow> outcome" where
  "cell33_indices =
     assign (\<lambda>s. Inr (where_positive (w_var s))) (\<lambda>v s. s\<lparr>indices_var := v\<rparr>)"

definition cell33_w_pos :: "nb_state \<Rightarrow> outcome" where
  "cell33_w_pos =
     assign (\<lambda>s. take_indices (w_var s) (indices_var s)) (\<lambda>v s. s\<lparr>w_pos_var := v\<rparr>)"

definition cell33_F_pos :: "nb_state \<Rightarrow> outcome" where
  "cell33_F_pos =
     assign (\<lambda>s. take_indices (F_var s) (indices_var s)) (\<lambda>v s. s\<lparr>F_pos_var := v\<rparr>)"

definition cell_33 :: "nb_state \<Rightarrow> outcome" where
  "cell_33 = then_stmt cell33_indices (then_stmt cell33_w_pos cell33_F_pos)"

section \<open>Pendulum plot coordinates\<close>

text \<open>
  Elementwise arithmetic on two one-dimensional arrays: equal lengths combine position by
  position, an array of length one is broadcast, any other pair of lengths raises
  ValueError.
\<close>

definition elementwise ::
  "(real \<Rightarrow> real \<Rightarrow> real) \<Rightarrow> real list \<Rightarrow> real list \<Rightarrow> error + real list" where
  "elementwise h a b =
     (if length a = length b then Inr (map (\<lambda>(u, v). h u v) (zip a b))
      else if length a = 1 then Inr (map (\<lambda>v. h (a ! 0) v) b)
      else if length b = 1 then Inr (map (\<lambda>u. h u (b ! 0)) a)
      else Inl ValueError)"

text \<open>
  The four assignments of the plotting cell, as a function of the two variables they read
  from outside, \<^verbatim>\<open>L\<close> and the solution array \<^verbatim>\<open>x\<close>:
  \<^verbatim>\<open>x1 = + L * sin(x[:, 0])\<close>, \<^verbatim>\<open>y1 = - L * cos(x[:, 0])\<close>,
  \<^verbatim>\<open>x2 = x1 + L * sin(x[:, 1])\<close>, \<^verbatim>\<open>y2 = y1 - L * cos(x[:, 1])\<close>.
  The result is \<open>(x1, y1, x2, y2)\<close>.
\<close>

definition pendulum_xy ::
  "real \<Rightarrow> ndarray \<Rightarrow> error + (real list \<times> real list \<times> real list \<times> real list)" where
  "pendulum_xy l x =
     bind_err (col 0 x) (\<lambda>th1.
     let x1 = map (\<lambda>a. l * sin a) th1 in
     bind_err (col 0 x) (\<lambda>th1'.
     let y1 = map (\<lambda>a. - l * cos a) th1' in
     bind_err (col 1 x) (\<lambda>th2.
     bind_err (elementwise (+) x1 (map (\<lambda>a. l * sin a) th2)) (\<lambda>x2.
     bind_err (col 1 x) (\<lambda>th2'.
     bind_err (elementwise (-) y1 (map (\<lambda>a. l * cos a) th2')) (\<lambda>y2.
       Inr (x1, y1, x2, y2)))))))"

section \<open>Concrete inputs\<close>

text \<open>
  A namespace with every variable bound to zero or to an empty array, from which the
  concrete states of the examples below are built.
\<close>

definition blank_state :: nb_state where
  "blank_state =
     \<lparr>g_var = 0, L_var = 0, m_var = 0, x0_var = [], t_var = [], x_var = Arr1 [],
      y0_var = [], w0_var = 0, y1_var = Arr1 [], y2_var = Arr1 [], y3_var = Arr1 [],
      y4_var = Arr1 [], N_var = 0, dt_var = 0, F_var = [], w_var = [],
      indices_var = [], w_pos_var = [], F_pos_var = []\<rparr>"



section \<open>Properties\<close>

lemma bind_err_Inr: "bind_err (Inr v) k = k v"
  by (simp add: bind_err_def)

lemma bind_err_Inl: "bind_err (Inl e) k = Inl e"
  by (simp add: bind_err_def)

lemma divide_py_value: "b \<noteq> 0 \<Longrightarrow> divide_py a b = Inr (a / b)"
  by (simp add: divide_py_def)

lemma cell_13_globals:
  "g_var (cell_13 s) = 9.82" "L_var (cell_13 s) = 0.5" "m_var (cell_13 s) = 0.1"
  by (simp_all add: cell_13_def)

lemma cos_denominator_bounds:
  "7 \<le> 16 - 9 * (cos (a::real)) ^ 2 \<and> 16 - 9 * (cos a) ^ 2 \<le> 16"
proof -
  have "(cos a) ^ 2 \<le> 1"
    using abs_cos_le_one [of a] by (simp add: abs_square_le_1)
  moreover have "0 \<le> (cos a) ^ 2"
    by simp
  ultimately show ?thesis
    by linarith
qed

lemma cos_denominator_nonzero: "16 - 9 * (cos (a::real)) ^ 2 \<noteq> 0"
  using cos_denominator_bounds [of a] by linarith

text \<open>
  The value of \<^verbatim>\<open>dx\<close> on a sequence of at least four numbers, in any namespace whose
  parameters make the divisors \<^verbatim>\<open>m*L**2\<close> and \<^verbatim>\<open>L\<close> non-zero.
\<close>

lemma dx_value:
  assumes len: "4 \<le> length x"
    and mL: "m_var s * L_var s ^ 2 \<noteq> 0"
    and L0: "L_var s \<noteq> 0"
  shows "dx s x t =
    Inr [6 / (m_var s * L_var s ^ 2) * (2 * x ! 2 - 3 * cos (x ! 0 - x ! 1) * x ! 3)
           / (16 - 9 * cos (x ! 0 - x ! 1) ^ 2),
         6 / (m_var s * L_var s ^ 2) * (8 * x ! 3 - 3 * cos (x ! 0 - x ! 1) * x ! 2)
           / (16 - 9 * cos (x ! 0 - x ! 1) ^ 2),
         - 0.5 * m_var s * L_var s ^ 2 *
           (6 / (m_var s * L_var s ^ 2) * (2 * x ! 2 - 3 * cos (x ! 0 - x ! 1) * x ! 3)
              / (16 - 9 * cos (x ! 0 - x ! 1) ^ 2) *
            (6 / (m_var s * L_var s ^ 2) * (8 * x ! 3 - 3 * cos (x ! 0 - x ! 1) * x ! 2)
              / (16 - 9 * cos (x ! 0 - x ! 1) ^ 2)) * sin (x ! 0 - x ! 1)
            + 3 * (g_var s / L_var s) * sin (x ! 0)),
         - 0.5 * m_var s * L_var s ^ 2 *
           (- (6 / (m_var s * L_var s ^ 2) * (2 * x ! 2 - 3 * cos (x ! 0 - x ! 1) * x ! 3)
              / (16 - 9 * cos (x ! 0 - x ! 1) ^ 2)) *
            (6 / (m_var s * L_var s ^ 2) * (8 * x ! 3 - 3 * cos (x ! 0 - x ! 1) * x ! 2)
              / (16 - 9 * cos (x ! 0 - x ! 1) ^ 2)) * sin (x ! 0 - x ! 1)
            + (g_var s / L_var s) * sin (x ! 1))]"
proof -
  have i: "index x 0 = Inr (x ! 0)" "index x 1 = Inr (x ! 1)"
    "index x 2 = Inr (x ! 2)" "index x 3 = Inr (x ! 3)"
    using len by (auto simp: index_def)
  show ?thesis
    unfolding dx_def i bind_err_Inr divide_py_value [OF mL] divide_py_value [OF L0]
      divide_py_value [OF cos_denominator_nonzero]
    by (rule refl)
qed

lemma cell_13_divisors:
  "m_var (cell_13 s) * L_var (cell_13 s) ^ 2 \<noteq> 0" "L_var (cell_13 s) \<noteq> 0"
  by (simp_all add: cell_13_def)

text \<open>
  C1. With the parameters bound by the defining cell, \<^verbatim>\<open>dx\<close> applied to a 4-vector
  \<open>[x1, x2, x3, x4]\<close> and any time \<open>t\<close> returns exactly the four components of the
  double-pendulum equations of motion for \<open>m = 0.1\<close>, \<open>L = 0.5\<close>, \<open>g = 9.82\<close>.
\<close>

theorem dx_equations_of_motion:
  "dx (cell_13 s) [x1, x2, x3, x4] t = Inr (pendulum_equations x1 x2 x3 x4)"
  unfolding pendulum_equations_def Let_def
  by (subst dx_value)
     (simp_all only: cell_13_globals nth_Cons_0 nth_Cons_numeral nth_Cons_Suc One_nat_def,
      simp_all)

text \<open>
  C2. For a state vector \<open>[x, p]\<close>, any time and any parameters \<open>zeta\<close> and \<open>w0\<close>,
  \<^verbatim>\<open>dy\<close> returns \<open>[p, -2*zeta*w0*p - w0^2*x]\<close>.
\<close>

theorem dy_damped_oscillator:
  "dy [x, p] t zeta w0 = Inr [p, - 2 * zeta * w0 * p - w0 ^ 2 * x]"
  by (simp add: dy_def bind_err_def index_def)

lemma index_error_kind: "index xs i = Inl e \<Longrightarrow> e = IndexError"
  by (simp add: index_def split: if_splits)

text \<open>The outcomes of \<^verbatim>\<open>dx\<close> and \<^verbatim>\<open>dy\<close> by input length and parameters.\<close>

lemma dx_short:
  assumes "length x < 4"
  shows "dx s x t = Inl IndexError"
proof -
  have e3: "index x 3 = Inl IndexError"
    using assms by (simp add: index_def)
  show ?thesis
  proof (cases "index x 0")
    case (Inl e)
    then show ?thesis
      using index_error_kind [OF Inl] by (simp add: dx_def bind_err_Inl)
  next
    case r0: (Inr a)
    show ?thesis
    proof (cases "index x 1")
      case (Inl e)
      then show ?thesis
        using index_error_kind [OF Inl] r0 by (simp add: dx_def bind_err_Inl bind_err_Inr)
    next
      case r1: (Inr b)
      show ?thesis
      proof (cases "index x 2")
        case (Inl e)
        then show ?thesis
          using index_error_kind [OF Inl] r0 r1
          by (simp add: dx_def bind_err_Inl bind_err_Inr)
      next
        case r2: (Inr c)
        show ?thesis
          unfolding dx_def r0 r1 r2 e3 bind_err_Inr bind_err_Inl by (rule refl)
      qed
    qed
  qed
qed


lemma dx_returns_four:
  assumes "4 \<le> length x" "m_var s * L_var s ^ 2 \<noteq> 0"
  shows "\<exists>r. dx s x t = Inr r \<and> length r = 4"
proof -
  have "L_var s \<noteq> 0"
    using assms(2) by auto
  from dx_value [OF assms(1) assms(2) this, of t] show ?thesis
    by simp
qed

lemma dy_value: "2 \<le> length y \<Longrightarrow> dy y t zeta w0 = Inr [y ! 1, - 2 * zeta * w0 * y ! 1 - w0 ^ 2 * y ! 0]"
  by (auto simp: dy_def index_def bind_err_def)


text \<open>
  C3. Every division inside \<^verbatim>\<open>dx\<close> has a non-zero divisor: the shared denominator
  \<open>16 - 9 * cos(x1-x2)^2\<close> lies between 7 and 16 for all real \<open>x1\<close>, \<open>x2\<close>; with the
  notebook's parameters \<open>m * L^2 = 0.025\<close> and \<open>L\<close> are non-zero. So \<^verbatim>\<open>dx\<close> never raises
  ZeroDivisionError, whatever the input, and returns a value on every real 4-vector.
\<close>

theorem dx_divisions_defined:
  "7 \<le> 16 - 9 * cos (x1 - x2) ^ 2 \<and> 16 - 9 * cos (x1 - x2) ^ 2 \<le> (16::real)
   \<and> m_var (cell_13 s) * L_var (cell_13 s) ^ 2 = 0.025
   \<and> m_var (cell_13 s) * L_var (cell_13 s) ^ 2 \<noteq> 0
   \<and> L_var (cell_13 s) \<noteq> 0
   \<and> dx (cell_13 s) x t \<noteq> Inl ZeroDivisionError
   \<and> (\<exists>r. dx (cell_13 s) [a, b, c, d] t = Inr r)"
proof -
  have mL: "m_var (cell_13 s) * L_var (cell_13 s) ^ 2 = 0.025"
    by (simp add: cell_13_def power2_eq_square)
  have nz: "dx (cell_13 s) x t \<noteq> Inl ZeroDivisionError"
  proof (cases "length x < 4")
    case True
    then show ?thesis by (simp add: dx_short)
  next
    case False
    then have "4 \<le> length x" by simp
    from dx_returns_four [OF this cell_13_divisors(1), of s t] show ?thesis
      by auto
  qed
  have tot: "\<exists>r. dx (cell_13 s) [a, b, c, d] t = Inr r"
    using dx_returns_four [of "[a, b, c, d]" "cell_13 s" t] cell_13_divisors(1) [of s]
    by auto
  show ?thesis
    using cos_denominator_bounds [of "x1 - x2"] mL cell_13_divisors [of s] nz tot
    by simp
qed

text \<open>
  C4. On a sequence of at least four numbers \<^verbatim>\<open>dx\<close> returns a list of exactly four,
  and on a sequence of at least two numbers \<^verbatim>\<open>dy\<close> returns a list of exactly two.
\<close>

theorem rhs_output_dimension:
  "(4 \<le> length x \<longrightarrow> (\<exists>r. dx (cell_13 s) x t = Inr r \<and> length r = 4))
   \<and> (2 \<le> length y \<longrightarrow> (\<exists>r. dy y t' zeta w0 = Inr r \<and> length r = 2))"
  using dx_returns_four [of x "cell_13 s" t] cell_13_divisors(1) [of s]
    dy_value [of y t' zeta w0]
  by simp

text \<open>The same at a five-element and a three-element input.\<close>

theorem rhs_output_dimension_witness:
  "4 \<le> length [0, 0, 0, 0, 0 :: real]
   \<and> (\<exists>r. dx (cell_13 blank_state) [0, 0, 0, 0, 0] 0 = Inr r \<and> length r = 4)
   \<and> 2 \<le> length [1, 0, 7 :: real]
   \<and> (\<exists>r. dy [1, 0, 7] 0 0.2 1 = Inr r \<and> length r = 2)"
  using rhs_output_dimension [of "[0, 0, 0, 0, 0]" blank_state 0 "[1, 0, 7]" 0 "0.2" 1]
  by simp








lemma then_stmt_continues: "a s = (None, s') \<Longrightarrow> then_stmt a b s = b s'"
  by (simp add: then_stmt_def)


















text \<open>The positive-frequency cell.\<close>

lemma where_positive_in_range: "list_all (\<lambda>i. i < length v) (where_positive v)"
  by (simp add: where_positive_def list_all_iff)

lemma take_indices_value:
  "list_all (\<lambda>i. i < length xs) ns \<Longrightarrow> take_indices xs ns = Inr (map (\<lambda>i. xs ! i) ns)"
  by (simp add: take_indices_def)

lemma take_where_positive:
  "take_indices v (where_positive v) = Inr (filter (\<lambda>a. 0 < a) v)"
proof -
  have "map (\<lambda>i. v ! i) (where_positive v) = filter (\<lambda>a. 0 < a) (map (\<lambda>i. v ! i) [0..<length v])"
    by (simp add: where_positive_def filter_map comp_def)
  also have "\<dots> = filter (\<lambda>a. 0 < a) v"
    by (simp add: map_nth)
  finally show ?thesis
    by (simp add: take_indices_value where_positive_in_range)
qed

lemma cell_33_outcome:
  "cell_33 s =
     (case take_indices (F_var s) (where_positive (w_var s)) of
        Inl e \<Rightarrow> (Some e, s\<lparr>indices_var := where_positive (w_var s),
                            w_pos_var := filter (\<lambda>a. 0 < a) (w_var s)\<rparr>)
      | Inr fp \<Rightarrow> (None, s\<lparr>indices_var := where_positive (w_var s),
                            w_pos_var := filter (\<lambda>a. 0 < a) (w_var s), F_pos_var := fp\<rparr>))"
  by (simp add: cell_33_def cell33_indices_def cell33_w_pos_def cell33_F_pos_def
      then_stmt_def assign_def take_where_positive split: sum.splits)

text \<open>
  C9. When \<^verbatim>\<open>F\<close> has at least as many entries as \<^verbatim>\<open>w\<close> (both have \<^verbatim>\<open>N\<close> in the
  notebook), the positive-frequency cell raises nothing and binds \<^verbatim>\<open>indices\<close>,
  \<^verbatim>\<open>w_pos\<close>, \<^verbatim>\<open>F_pos\<close> such that: every entry of \<^verbatim>\<open>w_pos\<close> is positive; the three have
  the same length; \<^verbatim>\<open>indices\<close> is strictly increasing and holds exactly the positions
  \<open>i\<close> with \<open>w[i] > 0\<close>; the \<open>k\<close>-th entries of \<^verbatim>\<open>w_pos\<close> and \<^verbatim>\<open>F_pos\<close> are
  \<open>w[i]\<close> and \<open>F[i]\<close> for the \<open>k\<close>-th such position \<open>i\<close>; and \<^verbatim>\<open>w_pos\<close> is \<^verbatim>\<open>w\<close>
  with its non-positive entries removed.
\<close>

theorem positive_frequency_extraction:
  assumes "length (w_var s) \<le> length (F_var s)"
  shows "\<exists>ns wp fp.
      cell_33 s = (None, s\<lparr>indices_var := ns, w_pos_var := wp, F_pos_var := fp\<rparr>)
      \<and> (\<forall>a \<in> set wp. 0 < a)
      \<and> length wp = length ns \<and> length fp = length ns
      \<and> sorted_wrt (<) ns
      \<and> set ns = {i. i < length (w_var s) \<and> 0 < w_var s ! i}
      \<and> (\<forall>k < length ns. wp ! k = w_var s ! (ns ! k) \<and> fp ! k = F_var s ! (ns ! k))
      \<and> wp = filter (\<lambda>a. 0 < a) (w_var s)"
proof -
  let ?ns = "where_positive (w_var s)"
  let ?wp = "filter (\<lambda>a. 0 < a) (w_var s)"
  let ?fp = "map (\<lambda>i. F_var s ! i) ?ns"
  have inF: "list_all (\<lambda>i. i < length (F_var s)) ?ns"
    using assms by (auto simp: where_positive_def list_all_iff)
  have cell: "cell_33 s = (None, s\<lparr>indices_var := ?ns, w_pos_var := ?wp, F_pos_var := ?fp\<rparr>)"
    by (simp add: cell_33_outcome take_indices_value [OF inF])
  have wp: "?wp = map (\<lambda>i. w_var s ! i) ?ns"
    using take_where_positive [of "w_var s"]
    by (simp add: take_indices_value where_positive_in_range)
  have pos: "\<forall>a \<in> set ?wp. 0 < a"
    by simp
  have len: "length ?wp = length ?ns" "length ?fp = length ?ns"
    by (simp_all add: wp)
  have sorted: "sorted_wrt (<) ?ns"
    unfolding where_positive_def by (rule sorted_wrt_filter) (rule sorted_wrt_upt)
  have set: "set ?ns = {i. i < length (w_var s) \<and> 0 < w_var s ! i}"
    by (auto simp: where_positive_def)
  have nth: "\<forall>k < length ?ns. ?wp ! k = w_var s ! (?ns ! k) \<and> ?fp ! k = F_var s ! (?ns ! k)"
    by (simp add: wp)
  from cell pos len sorted set nth show ?thesis
    by blast
qed

text \<open>The same at \<open>w = [0, 1, -1, 2]\<close>, \<open>F = [1, 2, 3, 4]\<close>.\<close>

theorem positive_frequency_extraction_witness:
  "length (w_var (blank_state\<lparr>w_var := [0, 1, - 1, 2], F_var := [1, 2, 3, 4]\<rparr>))
     \<le> length (F_var (blank_state\<lparr>w_var := [0, 1, - 1, 2], F_var := [1, 2, 3, 4]\<rparr>))
   \<and> (\<exists>ns wp fp.
      cell_33 (blank_state\<lparr>w_var := [0, 1, - 1, 2], F_var := [1, 2, 3, 4]\<rparr>)
        = (None, blank_state\<lparr>w_var := [0, 1, - 1, 2], F_var := [1, 2, 3, 4],
             indices_var := ns, w_pos_var := wp, F_pos_var := fp\<rparr>)
      \<and> (\<forall>a \<in> set wp. 0 < a)
      \<and> length wp = length ns \<and> length fp = length ns
      \<and> sorted_wrt (<) ns
      \<and> set ns = {i. i < length (w_var (blank_state\<lparr>w_var := [0, 1, - 1, 2], F_var := [1, 2, 3, 4]\<rparr>))
            \<and> 0 < w_var (blank_state\<lparr>w_var := [0, 1, - 1, 2], F_var := [1, 2, 3, 4]\<rparr>) ! i}
      \<and> (\<forall>k < length ns.
            wp ! k = w_var (blank_state\<lparr>w_var := [0, 1, - 1, 2], F_var := [1, 2, 3, 4]\<rparr>) ! (ns ! k)
          \<and> fp ! k = F_var (blank_state\<lparr>w_var := [0, 1, - 1, 2], F_var := [1, 2, 3, 4]\<rparr>) ! (ns ! k))
      \<and> wp = filter (\<lambda>a. 0 < a) (w_var (blank_state\<lparr>w_var := [0, 1, - 1, 2], F_var := [1, 2, 3, 4]\<rparr>)))
   \<and> cell_33 (blank_state\<lparr>w_var := [0, 1, - 1, 2], F_var := [1, 2, 3, 4]\<rparr>)
        = (None, blank_state\<lparr>w_var := [0, 1, - 1, 2], F_var := [1, 2, 3, 4],
             indices_var := [1, 3], w_pos_var := [1, 2], F_pos_var := [2, 4]\<rparr>)"
proof -
  let ?s = "blank_state\<lparr>w_var := [0, 1, - 1, 2], F_var := [1, 2, 3, 4]\<rparr>"
  have h: "length (w_var ?s) \<le> length (F_var ?s)"
    by simp
  have w: "where_positive [0, 1, - 1, 2] = [1, 3]"
    by (simp add: where_positive_def)
  have e: "cell_33 ?s
      = (None, ?s\<lparr>indices_var := [1, 3], w_pos_var := [1, 2], F_pos_var := [2, 4]\<rparr>)"
    by (simp add: cell_33_outcome w take_indices_def)
  show ?thesis
    by (intro conjI) (rule h, rule positive_frequency_extraction [OF h], rule e)
qed














text \<open>The plot coordinates.\<close>

lemma col_value:
  "list_all (\<lambda>r. k < length r) rows \<Longrightarrow> col k (Arr2 rows) = Inr (map (\<lambda>r. r ! k) rows)"
  by (simp add: col_def)

lemma elementwise_same_length:
  "elementwise h (map p rows) (map q rows) = Inr (map (\<lambda>r. h (p r) (q r)) rows)"
  by (simp add: elementwise_def zip_map_map zip_same_conv_map)

lemma pendulum_xy_value:
  assumes "list_all (\<lambda>r. 2 \<le> length r) rows"
  shows "pendulum_xy l (Arr2 rows) =
    Inr (map (\<lambda>r. l * sin (r ! 0)) rows,
         map (\<lambda>r. - l * cos (r ! 0)) rows,
         map (\<lambda>r. l * sin (r ! 0) + l * sin (r ! 1)) rows,
         map (\<lambda>r. - l * cos (r ! 0) - l * cos (r ! 1)) rows)"
proof -
  have c0: "col 0 (Arr2 rows) = Inr (map (\<lambda>r. r ! 0) rows)"
    using assms by (intro col_value) (auto simp: list_all_iff)
  have c1: "col 1 (Arr2 rows) = Inr (map (\<lambda>r. r ! 1) rows)"
    using assms by (intro col_value) (auto simp: list_all_iff)
  show ?thesis
    unfolding pendulum_xy_def c0 c1 bind_err_Inr Let_def map_map comp_def
      elementwise_same_length
    by (rule refl)
qed

lemma rod_length: "(l * sin a) ^ 2 + (- l * cos a) ^ 2 = (l::real) ^ 2"
proof -
  have "(l * sin a) ^ 2 + (- l * cos a) ^ 2 = l ^ 2 * (sin a) ^ 2 + l ^ 2 * (cos a) ^ 2"
    by (simp add: power_mult_distrib)
  also have "\<dots> = l ^ 2 * ((sin a) ^ 2 + (cos a) ^ 2)"
    by (simp only: distrib_left)
  also have "\<dots> = l ^ 2"
    by simp
  finally show ?thesis .
qed

text \<open>
  C10. For a solution array whose rows have at least two columns, the plotting cell's
  four assignments raise nothing and give one point per row, with \<open>L = 0.5\<close>:
  \<open>x1 = L sin \<theta>1\<close>, \<open>y1 = - L cos \<theta>1\<close>, \<open>x2 = x1 + L sin \<theta>2\<close>,
  \<open>y2 = y1 - L cos \<theta>2\<close>, where \<open>\<theta>1\<close>, \<open>\<theta>2\<close> are the first two entries of the
  row. Over the reals both rods have length \<open>L\<close> in every row:
  \<open>x1^2 + y1^2 = L^2\<close> and \<open>(x2 - x1)^2 + (y2 - y1)^2 = L^2\<close>.
\<close>

theorem pendulum_rods_constant_length:
  assumes "list_all (\<lambda>r. 2 \<le> length r) rows"
  shows "\<exists>x1 y1 x2 y2.
      pendulum_xy (L_var (cell_13 s)) (Arr2 rows) = Inr (x1, y1, x2, y2)
      \<and> length x1 = length rows \<and> length y1 = length rows
      \<and> length x2 = length rows \<and> length y2 = length rows
      \<and> L_var (cell_13 s) = 0.5
      \<and> (\<forall>k < length rows.
            x1 ! k = 0.5 * sin (rows ! k ! 0) \<and> y1 ! k = - 0.5 * cos (rows ! k ! 0)
          \<and> x2 ! k = x1 ! k + 0.5 * sin (rows ! k ! 1)
          \<and> y2 ! k = y1 ! k - 0.5 * cos (rows ! k ! 1))
      \<and> (\<forall>k < length rows.
            (x1 ! k) ^ 2 + (y1 ! k) ^ 2 = (L_var (cell_13 s)) ^ 2
          \<and> (x2 ! k - x1 ! k) ^ 2 + (y2 ! k - y1 ! k) ^ 2 = (L_var (cell_13 s)) ^ 2)"
proof -
  let ?l = "L_var (cell_13 s)"
  let ?x1 = "map (\<lambda>r. ?l * sin (r ! 0)) rows"
  let ?y1 = "map (\<lambda>r. - ?l * cos (r ! 0)) rows"
  let ?x2 = "map (\<lambda>r. ?l * sin (r ! 0) + ?l * sin (r ! 1)) rows"
  let ?y2 = "map (\<lambda>r. - ?l * cos (r ! 0) - ?l * cos (r ! 1)) rows"
  have l: "?l = 0.5"
    by (simp add: cell_13_def)
  have v: "pendulum_xy ?l (Arr2 rows) = Inr (?x1, ?y1, ?x2, ?y2)"
    by (rule pendulum_xy_value [OF assms])
  have len: "length ?x1 = length rows" "length ?y1 = length rows"
    "length ?x2 = length rows" "length ?y2 = length rows"
    by simp_all
  have coords: "\<forall>k < length rows.
            ?x1 ! k = 0.5 * sin (rows ! k ! 0) \<and> ?y1 ! k = - 0.5 * cos (rows ! k ! 0)
          \<and> ?x2 ! k = ?x1 ! k + 0.5 * sin (rows ! k ! 1)
          \<and> ?y2 ! k = ?y1 ! k - 0.5 * cos (rows ! k ! 1)"
    by (simp add: l)
  have rods: "\<forall>k < length rows.
            (?x1 ! k) ^ 2 + (?y1 ! k) ^ 2 = ?l ^ 2
          \<and> (?x2 ! k - ?x1 ! k) ^ 2 + (?y2 ! k - ?y1 ! k) ^ 2 = ?l ^ 2"
  proof (intro allI impI)
    fix k assume k: "k < length rows"
    have a: "(?x1 ! k) ^ 2 + (?y1 ! k) ^ 2 = ?l ^ 2"
      using k rod_length [of ?l "rows ! k ! 0"] by simp
    have "?x2 ! k - ?x1 ! k = ?l * sin (rows ! k ! 1)"
      "?y2 ! k - ?y1 ! k = - ?l * cos (rows ! k ! 1)"
      using k by simp_all
    then have b: "(?x2 ! k - ?x1 ! k) ^ 2 + (?y2 ! k - ?y1 ! k) ^ 2 = ?l ^ 2"
      using rod_length [of ?l "rows ! k ! 1"] by (simp only:)
    from a b show "(?x1 ! k) ^ 2 + (?y1 ! k) ^ 2 = ?l ^ 2
          \<and> (?x2 ! k - ?x1 ! k) ^ 2 + (?y2 ! k - ?y1 ! k) ^ 2 = ?l ^ 2"
      by (rule conjI)
  qed
  from v len l coords rods show ?thesis
    by blast
qed

text \<open>The same for an array of two rows.\<close>

theorem pendulum_rods_constant_length_witness:
  "list_all (\<lambda>r. 2 \<le> length r) [[0, 0], [1, 2, 3 :: real]]
   \<and> (\<exists>x1 y1 x2 y2.
      pendulum_xy (L_var (cell_13 blank_state)) (Arr2 [[0, 0], [1, 2, 3]]) = Inr (x1, y1, x2, y2)
      \<and> length x1 = length [[0, 0], [1, 2, 3 :: real]]
      \<and> length y1 = length [[0, 0], [1, 2, 3 :: real]]
      \<and> length x2 = length [[0, 0], [1, 2, 3 :: real]]
      \<and> length y2 = length [[0, 0], [1, 2, 3 :: real]]
      \<and> L_var (cell_13 blank_state) = 0.5
      \<and> (\<forall>k < length [[0, 0], [1, 2, 3 :: real]].
            x1 ! k = 0.5 * sin ([[0, 0], [1, 2, 3]] ! k ! 0)
          \<and> y1 ! k = - 0.5 * cos ([[0, 0], [1, 2, 3]] ! k ! 0)
          \<and> x2 ! k = x1 ! k + 0.5 * sin ([[0, 0], [1, 2, 3]] ! k ! 1)
          \<and> y2 ! k = y1 ! k - 0.5 * cos ([[0, 0], [1, 2, 3]] ! k ! 1))
      \<and> (\<forall>k < length [[0, 0], [1, 2, 3 :: real]].
            (x1 ! k) ^ 2 + (y1 ! k) ^ 2 = (L_var (cell_13 blank_state)) ^ 2
          \<and> (x2 ! k - x1 ! k) ^ 2 + (y2 ! k - y1 ! k) ^ 2 = (L_var (cell_13 blank_state)) ^ 2))"
proof -
  have h: "list_all (\<lambda>r. 2 \<le> length r) [[0, 0], [1, 2, 3 :: real]]"
    by simp
  show ?thesis
    by (intro conjI) (rule h, rule pendulum_rods_constant_length [OF h])
qed

end
